theory Spec2Isabelle
  imports Main
begin

section \<open>Data model of \<^verbatim>\<open>idempotency_key/middleware.py\<close>\<close>

text \<open>
  A Django response, as far as the middleware reads and writes it: the status code
  (a Python int) and the rendered body.
\<close>

record response =
  status_code :: int
  content :: string

text \<open>
  The request object.  \<^verbatim>\<open>request_method\<close> is \<^verbatim>\<open>request.method\<close> and \<^verbatim>\<open>META\<close> is the
  header dictionary.  The middleware communicates through attributes that it sets on
  the request; an attribute that has not been set is \<open>None\<close>, one that has been set
  to \<open>v\<close> is \<open>Some v\<close>.  \<^verbatim>\<open>idempotency_key_response\<close> is set to whatever
  \<^verbatim>\<open>retrieve_data\<close> returned, which is Python's \<^verbatim>\<open>None\<close> when there is no stored
  response: hence the two option layers.
\<close>

record request =
  request_method :: string
  path :: string
  body :: string
  META :: "string \<rightharpoonup> string"
  idempotency_key_done :: "bool option"
  idempotency_key_exempt :: "bool option"
  idempotency_key_manual :: "bool option"
  use_idempotency_key_manual_override :: "bool option"
  idempotency_key_encoded_key :: "string option"
  idempotency_key_exists :: "bool option"
  idempotency_key_response :: "response option option"

text \<open>
  The attributes that the decorators leave on a view function and that
  \<^verbatim>\<open>getattr(callback, name, default)\<close> reads: absent (\<open>None\<close>) or a boolean.
\<close>

record view_attrs =
  attr_idempotency_key :: "bool option"
  attr_idempotency_key_exempt :: "bool option"
  attr_idempotency_key_manual :: "bool option"

text \<open>
  The callback that the URL resolver hands to \<^verbatim>\<open>process_view\<close>: a plain view function,
  or the view of a Django REST framework viewset, which has an \<^verbatim>\<open>actions\<close> attribute
  (a dict from the lower-case HTTP verb to the name of the handling member) and a
  \<^verbatim>\<open>cls\<close> attribute (here: the attributes of the members of that class, by name).
\<close>

datatype callback =
    View view_attrs
  | ViewSet view_attrs "string \<rightharpoonup> string" "string \<rightharpoonup> view_attrs"

datatype error =
    KeyError string
  | AttributeError string
  | ImproperlyConfigured

text \<open>
  \<^verbatim>\<open>settings.IDEMPOTENCY_KEY\<close>: the attribute may be missing from the settings module
  (\<open>None\<close>), and each of its entries may be missing from the dict.  The entry
  \<^verbatim>\<open>CONFLICT_STATUS_CODE\<close> may be present with the value \<^verbatim>\<open>None\<close>.
\<close>

record idkey_settings =
  STORAGE_CLASS :: "string option"
  ENCODER_CLASS :: "string option"
  CONFLICT_STATUS_CODE :: "int option option"

type_synonym settings = "idkey_settings option"

text \<open>
  The collaborators that the middleware calls are recorded, in order, in a log, so that
  "is not called" can be stated: the key encoder, the two storage operations, the
  logger (called by \<^verbatim>\<open>_reject\<close>) and the view function itself.
\<close>

datatype call =
    EncodeKey string
  | RetrieveData string
  | StoreData string response
  | LoggerError string string
  | ViewCalled

text \<open>
  The state outside the request: the state of the storage object (of any type \<open>'s\<close>)
  and the log of calls.
\<close>

record 's world =
  storage :: 's
  calls :: "call list"

datatype middleware_class = IdempotencyKeyMiddleware | ExemptIdempotencyKeyMiddleware

text \<open>
  A middleware instance: which of the two classes it is, and the encoder and storage objects
  that \<^verbatim>\<open>__init__\<close> constructs from the configured classes.  The encoder and the storage
  classes are not part of \<^verbatim>\<open>middleware.py\<close>; they are parameters here.
  \<^verbatim>\<open>retrieve_data\<close> returns the pair \<^verbatim>\<open>(key_exists, response)\<close>.

  A response is a mutable object, and \<^verbatim>\<open>process_view\<close> assigns to the
  \<^verbatim>\<open>status_code\<close> of the object that \<^verbatim>\<open>retrieve_data\<close> returned.  Whether the storage
  sees that assignment depends on the backend: one that hands out the object it holds
  does, one that hands out a copy does not.  \<^verbatim>\<open>status_code_assigned st k c\<close> is the
  storage \<open>st\<close> after \<^verbatim>\<open>response.status_code = c\<close> was executed on the object returned
  by \<^verbatim>\<open>retrieve_data\<close> for the encoded key \<open>k\<close>.
\<close>

record 's middleware =
  cls :: middleware_class
  encode_key :: "request \<Rightarrow> string \<Rightarrow> string"
  retrieve_data :: "'s \<Rightarrow> string \<Rightarrow> bool \<times> response option"
  store_data :: "'s \<Rightarrow> string \<Rightarrow> response \<Rightarrow> 's"
  status_code_assigned :: "'s \<Rightarrow> string \<Rightarrow> int \<Rightarrow> 's"

section \<open>Settings\<close>

definition no_idkey_settings :: idkey_settings where
  "no_idkey_settings =
     \<lparr>STORAGE_CLASS = None, ENCODER_CLASS = None, CONFLICT_STATUS_CODE = None\<rparr>"

definition idkey_settings_of :: "settings \<Rightarrow> idkey_settings" where
  \<comment> \<open>\<^verbatim>\<open>getattr(settings, 'IDEMPOTENCY_KEY', dict())\<close>\<close>
  "idkey_settings_of s = (case s of None \<Rightarrow> no_idkey_settings | Some d \<Rightarrow> d)"

definition get_storage_class :: "settings \<Rightarrow> string" where
  \<comment> \<open>the dotted name that \<^verbatim>\<open>get_callable\<close> then imports\<close>
  "get_storage_class s =
     (case STORAGE_CLASS (idkey_settings_of s) of
        None \<Rightarrow> ''idempotency_key.storage.MemoryKeyStorage''
      | Some n \<Rightarrow> n)"

definition get_encoder_class :: "settings \<Rightarrow> string" where
  "get_encoder_class s =
     (case ENCODER_CLASS (idkey_settings_of s) of
        None \<Rightarrow> ''idempotency_key.encoders.BasicKeyEncoder''
      | Some n \<Rightarrow> n)"

definition HTTP_409_CONFLICT :: int where
  "HTTP_409_CONFLICT = 409"

definition get_conflict_code :: "settings \<Rightarrow> int option" where
  \<comment> \<open>\<^verbatim>\<open>idkey_settings.get('CONFLICT_STATUS_CODE', status.HTTP_409_CONFLICT)\<close>;
      the result \<open>None\<close> is Python's \<^verbatim>\<open>None\<close>\<close>
  "get_conflict_code s =
     (case CONFLICT_STATUS_CODE (idkey_settings_of s) of
        None \<Rightarrow> Some HTTP_409_CONFLICT
      | Some v \<Rightarrow> v)"

section \<open>The middleware\<close>

definition lower_char :: "char \<Rightarrow> char" where
  \<comment> \<open>an ASCII capital becomes the small letter: bit 5 of its code is set\<close>
  "lower_char c =
     (if c \<in> set ''ABCDEFGHIJKLMNOPQRSTUVWXYZ''
      then (case c of Char b0 b1 b2 b3 b4 b5 b6 b7 \<Rightarrow> Char b0 b1 b2 b3 b4 True b6 b7)
      else c)"

definition lower :: "string \<Rightarrow> string" where
  \<comment> \<open>\<^verbatim>\<open>str.lower()\<close> on the ASCII letters of an HTTP verb\<close>
  "lower s = map lower_char s"

definition safe_methods :: "string list" where
  \<comment> \<open>the tuple \<^verbatim>\<open>('GET', 'HEAD', 'OPTIONS', 'TRACE')\<close>\<close>
  "safe_methods = [''GET'', ''HEAD'', ''OPTIONS'', ''TRACE'']"

definition get_flag :: "bool option \<Rightarrow> bool \<Rightarrow> bool" where
  \<comment> \<open>\<^verbatim>\<open>getattr(obj, name, default)\<close> for a boolean attribute\<close>
  "get_flag a d = (case a of None \<Rightarrow> d | Some b \<Rightarrow> b)"

definition truthy :: "bool option \<Rightarrow> bool" where
  \<comment> \<open>the truth value of an attribute read with default \<^verbatim>\<open>None\<close>\<close>
  "truthy a = (case a of None \<Rightarrow> False | Some b \<Rightarrow> b)"

definition viewset_member :: "request \<Rightarrow> callback \<Rightarrow> error + view_attrs" where
  \<comment> \<open>the first three lines of both \<^verbatim>\<open>_set_flags_from_callback\<close> methods:
      \<^verbatim>\<open>if hasattr(callback, 'actions'):
           callback = getattr(callback.cls, callback.actions[request.method.lower()], callback)\<close>.
      The subscript raises \<^verbatim>\<open>KeyError\<close> when the verb is not a key of \<^verbatim>\<open>actions\<close>.\<close>
  "viewset_member request callback =
     (case callback of
        View attrs \<Rightarrow> Inr attrs
      | ViewSet attrs actions members \<Rightarrow>
          (case actions (lower (request_method request)) of
             None \<Rightarrow> Inl (KeyError (lower (request_method request)))
           | Some name \<Rightarrow>
               Inr (case members name of None \<Rightarrow> attrs | Some a \<Rightarrow> a)))"

definition set_flags_deny_by_default :: "request \<Rightarrow> callback \<Rightarrow> error + request" where
  \<comment> \<open>\<^verbatim>\<open>IdempotencyKeyMiddleware._set_flags_from_callback\<close>\<close>
  "set_flags_deny_by_default request callback =
     (case viewset_member request callback of
        Inl e \<Rightarrow> Inl e
      | Inr attrs \<Rightarrow>
          Inr (request
            \<lparr>idempotency_key_exempt := Some (get_flag (attr_idempotency_key_exempt attrs) False),
             idempotency_key_manual := Some (get_flag (attr_idempotency_key_manual attrs) False)\<rparr>))"

definition set_flags_allow_by_default :: "request \<Rightarrow> callback \<Rightarrow> error + request" where
  \<comment> \<open>\<^verbatim>\<open>ExemptIdempotencyKeyMiddleware._set_flags_from_callback\<close>.  With
      \<^verbatim>\<open>e = getattr(callback, 'idempotency_key_exempt', None)\<close> the expression
      \<^verbatim>\<open>e or (e is None and not manual and not key)\<close> is \<^verbatim>\<open>True\<close> for \<^verbatim>\<open>e = True\<close>,
      the parenthesis (which is \<^verbatim>\<open>False\<close>) for \<^verbatim>\<open>e = False\<close>, and the parenthesis for
      an absent attribute.\<close>
  "set_flags_allow_by_default request callback =
     (case viewset_member request callback of
        Inl e \<Rightarrow> Inl e
      | Inr attrs \<Rightarrow>
          (let idempotency_key = attr_idempotency_key attrs;
               idempotency_key_exempt = attr_idempotency_key_exempt attrs;
               idempotency_key_manual = get_flag (attr_idempotency_key_manual attrs) False
           in Inr (request
             \<lparr>idempotency_key_exempt :=
                Some (truthy idempotency_key_exempt \<or>
                  (idempotency_key_exempt = None \<and> \<not> idempotency_key_manual
                     \<and> \<not> truthy idempotency_key)),
              idempotency_key_manual := Some idempotency_key_manual\<rparr>)))"

definition set_flags_from_callback ::
  "middleware_class \<Rightarrow> request \<Rightarrow> callback \<Rightarrow> error + request" where
  \<comment> \<open>\<^verbatim>\<open>self._set_flags_from_callback\<close>: the subclass overrides the method\<close>
  "set_flags_from_callback c request callback =
     (case c of
        IdempotencyKeyMiddleware \<Rightarrow> set_flags_deny_by_default request callback
      | ExemptIdempotencyKeyMiddleware \<Rightarrow> set_flags_allow_by_default request callback)"

definition process_request :: "request \<Rightarrow> request" where
  "process_request request =
     (let request =
            (case META request ''HTTP_IDEMPOTENCY_KEY'' of
               None \<Rightarrow> request
             | Some key \<Rightarrow> request\<lparr>META := (META request)(''IDEMPOTENCY_KEY'' \<mapsto> key)\<rparr>)
      in request\<lparr>idempotency_key_done := Some False\<rparr>)"

definition bad_request :: response where
  \<comment> \<open>\<^verbatim>\<open>rest_framework.exceptions.bad_request(request, None)\<close>: the framework's
      generic 400 response\<close>
  "bad_request = \<lparr>status_code = 400, content = ''Bad Request (400)''\<rparr>"

definition missing_key_reason :: string where
  "missing_key_reason = ''Idempotency key is required and was not specified in the header.''"

definition reject :: "request \<Rightarrow> string \<Rightarrow> 's world \<Rightarrow> response \<times> 's world" where
  \<comment> \<open>\<^verbatim>\<open>_reject\<close>: builds the 400 response and logs the reason with the request path\<close>
  "reject request reason w =
     (bad_request, w\<lparr>calls := calls w @ [LoggerError reason (path request)]\<rparr>)"

definition conflict_response ::
  "'s middleware \<Rightarrow> settings \<Rightarrow> request \<Rightarrow> string \<Rightarrow> response option \<Rightarrow> 's world
     \<Rightarrow> error + response option \<times> request \<times> 's world" where
  \<comment> \<open>the body of \<^verbatim>\<open>if not request.idempotency_key_manual and key_exists:\<close>.
      \<^verbatim>\<open>response.status_code = status_code\<close> writes a field of the object that
      \<^verbatim>\<open>retrieve_data\<close> returned for \<open>encoded_key\<close>.  No copy is made, so the write is
      seen through every reference to that object: the returned response,
      \<^verbatim>\<open>request.idempotency_key_response\<close>, and the storage as far as it holds the object
      (\<^verbatim>\<open>status_code_assigned\<close>).  On Python's \<^verbatim>\<open>None\<close> the assignment raises
      \<^verbatim>\<open>AttributeError\<close>.\<close>
  "conflict_response mw s request encoded_key response w =
     (case get_conflict_code s of
        None \<Rightarrow> Inr (response, request, w)
      | Some status_code' \<Rightarrow>
          (case response of
             None \<Rightarrow> Inl (AttributeError ''status_code'')
           | Some r \<Rightarrow>
               (let r = r\<lparr>status_code := status_code'\<rparr>;
                    w = w\<lparr>storage :=
                          status_code_assigned mw (storage w) encoded_key status_code'\<rparr>
                in Inr (Some r, request\<lparr>idempotency_key_response := Some (Some r)\<rparr>, w))))"

definition process_view ::
  "'s middleware \<Rightarrow> settings \<Rightarrow> request \<Rightarrow> callback \<Rightarrow> 's world
     \<Rightarrow> error + response option \<times> request \<times> 's world" where
  \<comment> \<open>The result \<open>Inr (None, _, _)\<close> is \<^verbatim>\<open>return None\<close> (the view will be called),
      \<open>Inr (Some r, _, _)\<close> is \<^verbatim>\<open>return r\<close> (the view is skipped).\<close>
  "process_view mw s request callback w =
     (case set_flags_from_callback (cls mw) request callback of
        Inl e \<Rightarrow> Inl e
      | Inr request \<Rightarrow>
          (let request = request\<lparr>idempotency_key_done := Some True\<rparr> in
           if get_flag (idempotency_key_exempt request) False
              \<or> request_method request \<in> set safe_methods
           then Inr (None, request\<lparr>idempotency_key_exempt := Some True\<rparr>, w)
           else
             (let request = request\<lparr>idempotency_key_exempt := Some False\<rparr> in
              case META request ''IDEMPOTENCY_KEY'' of
                None \<Rightarrow>
                  (let (response, w) = reject request missing_key_reason w
                   in Inr (Some response, request, w))
              | Some key \<Rightarrow>
                  (let manual = get_flag (idempotency_key_manual request) False;
                       request =
                         (if manual
                          then request\<lparr>use_idempotency_key_manual_override := Some True\<rparr>
                          else request);
                       encoded_key = encode_key mw request key;
                       w = w\<lparr>calls := calls w @ [EncodeKey key]\<rparr>;
                       request = request\<lparr>idempotency_key_encoded_key := Some encoded_key\<rparr>;
                       (key_exists, response) = retrieve_data mw (storage w) encoded_key;
                       w = w\<lparr>calls := calls w @ [RetrieveData encoded_key]\<rparr>;
                       request = request
                         \<lparr>idempotency_key_exists := Some key_exists,
                          idempotency_key_response := Some response\<rparr>
                   in if \<not> manual \<and> key_exists
                      then conflict_response mw s request encoded_key response w
                      else Inr (None, request, w)))))"

definition HTTP_200_OK :: int where
  "HTTP_200_OK = 200"

definition HTTP_207_MULTI_STATUS :: int where
  "HTTP_207_MULTI_STATUS = 207"

definition process_response ::
  "'s middleware \<Rightarrow> request \<Rightarrow> response \<Rightarrow> 's world \<Rightarrow> error + response \<times> 's world" where
  "process_response mw request response w =
     (if \<not> get_flag (idempotency_key_done request) False then Inl ImproperlyConfigured
      else if get_flag (idempotency_key_exempt request) True then Inr (response, w)
      else if request_method request \<notin> set safe_methods
              \<and> HTTP_200_OK \<le> status_code response
              \<and> status_code response \<le> HTTP_207_MULTI_STATUS
      then
        (case idempotency_key_encoded_key request of
           None \<Rightarrow> Inl (AttributeError ''idempotency_key_encoded_key'')
         | Some encoded_key \<Rightarrow>
             Inr (response,
                  w\<lparr>storage := store_data mw (storage w) encoded_key response,
                    calls := calls w @ [StoreData encoded_key response]\<rparr>))
      else Inr (response, w))"

text \<open>
  The request as the first lines of \<^verbatim>\<open>process_view\<close> leave it, up to and including the
  decision on exemption: the flags are read from the callback, \<^verbatim>\<open>idempotency_key_done\<close> is
  set, and \<^verbatim>\<open>idempotency_key_exempt\<close> becomes \<^verbatim>\<open>True\<close> or \<^verbatim>\<open>False\<close>.  The properties
  below name the requests they speak about ("non-exempt", "manual") through it.
\<close>

definition exemption_phase :: "middleware_class \<Rightarrow> request \<Rightarrow> callback \<Rightarrow> error + request" where
  "exemption_phase c request callback =
     (case set_flags_from_callback c request callback of
        Inl e \<Rightarrow> Inl e
      | Inr request \<Rightarrow>
          (let request = request\<lparr>idempotency_key_done := Some True\<rparr> in
           Inr (request\<lparr>idempotency_key_exempt :=
                  Some (get_flag (idempotency_key_exempt request) False
                        \<or> request_method request \<in> set safe_methods)\<rparr>)))"

text \<open>
  \<^verbatim>\<open>self.get_response(request)\<close> is the framework's handler.  For this middleware it
  resolves the callback, calls \<^verbatim>\<open>process_view\<close>, and calls the view function only when
  \<^verbatim>\<open>process_view\<close> returned \<^verbatim>\<open>None\<close>.  The view is a function of the request, which it can
  inspect for the attributes set above.  An exception propagates.
\<close>

definition get_response ::
  "'s middleware \<Rightarrow> settings \<Rightarrow> callback \<Rightarrow> (request \<Rightarrow> response) \<Rightarrow> request \<Rightarrow> 's world
     \<Rightarrow> error + response \<times> request \<times> 's world" where
  "get_response mw s callback view request w =
     (case process_view mw s request callback w of
        Inl e \<Rightarrow> Inl e
      | Inr (None, request, w) \<Rightarrow>
          Inr (view request, request, w\<lparr>calls := calls w @ [ViewCalled]\<rparr>)
      | Inr (Some response, request, w) \<Rightarrow> Inr (response, request, w))"

definition call_middleware ::
  "'s middleware \<Rightarrow> settings \<Rightarrow> callback \<Rightarrow> (request \<Rightarrow> response) \<Rightarrow> request \<Rightarrow> 's world
     \<Rightarrow> error + response \<times> request \<times> 's world" where
  \<comment> \<open>\<^verbatim>\<open>__call__\<close>\<close>
  "call_middleware mw s callback view request w =
     (let request = process_request request in
      case get_response mw s callback view request w of
        Inl e \<Rightarrow> Inl e
      | Inr (response, request, w) \<Rightarrow>
          (case process_response mw request response w of
             Inl e \<Rightarrow> Inl e
           | Inr (response, w) \<Rightarrow> Inr (response, request, w)))"

section \<open>Collaborators outside \<^verbatim>\<open>middleware.py\<close>\<close>

text \<open>
  Modelled from the spec: the in-memory storage backend \<^verbatim>\<open>MemoryKeyStorage\<close>, whose
  module is not among the sources.  The specification describes it as a mapping from
  the encoded key to the recorded result, held for the lifetime of the process, without
  eviction; \<^verbatim>\<open>retrieve\<close> reports absence as \<^verbatim>\<open>exists = false\<close> with an empty result,
  and the last \<^verbatim>\<open>store\<close> for a key is the one that is visible.  A mapping of Python
  holds the response objects themselves and hands them out again, so an assignment to
  the \<^verbatim>\<open>status_code\<close> of a retrieved response changes the response that is held.
\<close>

type_synonym memory_storage = "string \<rightharpoonup> response"

definition MemoryKeyStorage_retrieve_data ::
  "memory_storage \<Rightarrow> string \<Rightarrow> bool \<times> response option" where
  "MemoryKeyStorage_retrieve_data m encoded_key =
     (case m encoded_key of None \<Rightarrow> (False, None) | Some r \<Rightarrow> (True, Some r))"

definition MemoryKeyStorage_store_data ::
  "memory_storage \<Rightarrow> string \<Rightarrow> response \<Rightarrow> memory_storage" where
  "MemoryKeyStorage_store_data m encoded_key r = m(encoded_key \<mapsto> r)"

definition MemoryKeyStorage_status_code_assigned ::
  "memory_storage \<Rightarrow> string \<Rightarrow> int \<Rightarrow> memory_storage" where
  "MemoryKeyStorage_status_code_assigned m encoded_key c =
     (case m encoded_key of
        None \<Rightarrow> m
      | Some r \<Rightarrow> m(encoded_key \<mapsto> r\<lparr>status_code := c\<rparr>))"

definition memory_middleware ::
  "middleware_class \<Rightarrow> (request \<Rightarrow> string \<Rightarrow> string) \<Rightarrow> memory_storage middleware" where
  "memory_middleware c enc =
     \<lparr>cls = c, encode_key = enc,
      retrieve_data = MemoryKeyStorage_retrieve_data,
      store_data = MemoryKeyStorage_store_data,
      status_code_assigned = MemoryKeyStorage_status_code_assigned\<rparr>"

definition copying_middleware ::
  "middleware_class \<Rightarrow> (request \<Rightarrow> string \<Rightarrow> string) \<Rightarrow> memory_storage middleware" where
  \<comment> \<open>the same mapping behind a backend that hands out copies of what it holds, as one
      that serialises the responses does\<close>
  "copying_middleware c enc =
     (memory_middleware c enc)\<lparr>status_code_assigned := (\<lambda>m encoded_key c. m)\<rparr>"

text \<open>
  Modelled from the spec: the default key encoder \<^verbatim>\<open>BasicKeyEncoder\<close>, whose module
  \<^verbatim>\<open>idempotency_key.encoders\<close> is not among the sources.  The specification gives its
  reference behaviour as a SHA-256 digest of the raw key alone, hex-encoded.  SHA-256 is
  the function of FIPS 180-4 on the bytes of the key: a 32-bit word is a natural number
  below \<open>2 ^ 32\<close>, and the wrap-around of every addition and rotation is written out.
\<close>

unbundle bit_operations_syntax























section \<open>The requests of \<^verbatim>\<open>tests/tests/test_middleware_exempt.py\<close>\<close>

definition the_key :: string where
  "the_key = ''7495e32b-709b-4fae-bfd4-2497094bf3fd''"

definition new_request :: "string \<Rightarrow> string \<Rightarrow> (string \<rightharpoonup> string) \<Rightarrow> request" where
  \<comment> \<open>a request as the test client builds it: none of the middleware's attributes is set\<close>
  "new_request verb p meta =
     \<lparr>request_method = verb, path = p, body = [], META = meta,
      idempotency_key_done = None, idempotency_key_exempt = None,
      idempotency_key_manual = None, use_idempotency_key_manual_override = None,
      idempotency_key_encoded_key = None, idempotency_key_exists = None,
      idempotency_key_response = None\<rparr>"

definition no_attrs :: view_attrs where
  \<comment> \<open>a view function without decorators\<close>
  "no_attrs = \<lparr>attr_idempotency_key = None, attr_idempotency_key_exempt = None,
               attr_idempotency_key_manual = None\<rparr>"

definition created :: response where
  \<comment> \<open>the 201 of the voucher views\<close>
  "created = \<lparr>status_code = 201, content = ''myvoucher0''\<rparr>"

definition empty_world :: "memory_storage world" where
  "empty_world = \<lparr>storage = Map.empty, calls = []\<rparr>"

definition keyed_post :: "string \<Rightarrow> request" where
  \<comment> \<open>\<^verbatim>\<open>client.post(path, voucher_data, HTTP_IDEMPOTENCY_KEY=self.the_key)\<close>, after
      \<^verbatim>\<open>process_request\<close>\<close>
  "keyed_post p =
     process_request (new_request ''POST'' p [''HTTP_IDEMPOTENCY_KEY'' \<mapsto> the_key])"

definition unkeyed_post :: "string \<Rightarrow> request" where
  \<comment> \<open>\<^verbatim>\<open>client.post(path)\<close> without the header, after \<^verbatim>\<open>process_request\<close>\<close>
  "unkeyed_post p = process_request (new_request ''POST'' p Map.empty)"

definition manual_attrs :: view_attrs where
  \<comment> \<open>a view function that asks for the manual override\<close>
  "manual_attrs = \<lparr>attr_idempotency_key = None, attr_idempotency_key_exempt = Some False,
                   attr_idempotency_key_manual = Some True\<rparr>"

definition manual_view :: "request \<Rightarrow> response" where
  \<comment> \<open>the view of \<^verbatim>\<open>/create-voucher-manual/\<close>, which "forces a 200 OK to be returned if
      this is a repeated request"\<close>
  "manual_view request =
     (if idempotency_key_exists request = Some True then created\<lparr>status_code := 200\<rparr>
      else created)"

definition short_circuited_post :: "string \<Rightarrow> request" where
  \<comment> \<open>\<^verbatim>\<open>keyed_post\<close> as \<^verbatim>\<open>process_view\<close> leaves it when the key is already stored and
      the conflict status is the default\<close>
  "short_circuited_post p =
     (keyed_post p)
       \<lparr>idempotency_key_done := Some True, idempotency_key_exempt := Some False,
        idempotency_key_manual := Some False,
        idempotency_key_encoded_key := Some the_key,
        idempotency_key_exists := Some True,
        idempotency_key_response := Some (Some (created\<lparr>status_code := 409\<rparr>))\<rparr>"

definition first_post :: "string \<Rightarrow> request" where
  \<comment> \<open>\<^verbatim>\<open>keyed_post\<close> as \<^verbatim>\<open>process_view\<close> leaves it when the storage is empty\<close>
  "first_post p =
     (keyed_post p)
       \<lparr>idempotency_key_done := Some True, idempotency_key_exempt := Some False,
        idempotency_key_manual := Some False,
        idempotency_key_encoded_key := Some the_key,
        idempotency_key_exists := Some False,
        idempotency_key_response := Some None\<rparr>"

definition options_request :: "string \<Rightarrow> request" where
  \<comment> \<open>\<^verbatim>\<open>client.options(path)\<close>, after \<^verbatim>\<open>process_request\<close>\<close>
  "options_request p = process_request (new_request ''OPTIONS'' p Map.empty)"

definition voucher_viewset :: callback where
  \<comment> \<open>the view of \<^verbatim>\<open>VoucherViewSet.as_view({'post': 'create'})\<close>: its \<^verbatim>\<open>actions\<close> know
      the verb \<^verbatim>\<open>post\<close> only\<close>
  "voucher_viewset = ViewSet no_attrs [''post'' \<mapsto> ''create''] Map.empty"

definition exempt_and_manual_attrs :: view_attrs where
  \<comment> \<open>a view function that carries all three attributes\<close>
  "exempt_and_manual_attrs =
     \<lparr>attr_idempotency_key = Some True, attr_idempotency_key_exempt = Some True,
      attr_idempotency_key_manual = Some True\<rparr>"

definition conflict_settings :: "int option \<Rightarrow> settings" where
  \<comment> \<open>\<^verbatim>\<open>IDEMPOTENCY_KEY = {'CONFLICT_STATUS_CODE': c}\<close>\<close>
  "conflict_settings c =
     Some \<lparr>STORAGE_CLASS = None, ENCODER_CLASS = None, CONFLICT_STATUS_CODE = Some c\<rparr>"

definition created_view :: "request \<Rightarrow> response" where
  \<comment> \<open>the view of \<^verbatim>\<open>/create-voucher/\<close>: always 201\<close>
  "created_view request = created"

definition plain_middleware :: "middleware_class \<Rightarrow> memory_storage middleware" where
  \<comment> \<open>a middleware whose encoder returns the key as it is\<close>
  "plain_middleware c = memory_middleware c (\<lambda>request key. key)"

definition stored_world :: "memory_storage world" where
  \<comment> \<open>the storage after a first request with \<^verbatim>\<open>the_key\<close> was answered with 201\<close>
  "stored_world = \<lparr>storage = [the_key \<mapsto> created], calls = []\<rparr>"



definition im_used :: response where
  \<comment> \<open>a response with the status \<^verbatim>\<open>HTTP_226_IM_USED\<close>\<close>
  "im_used = \<lparr>status_code = 226, content = ''myvoucher0''\<rparr>"

definition im_used_view :: "request \<Rightarrow> response" where
  \<comment> \<open>a view that answers every request with 226\<close>
  "im_used_view request = im_used"

definition short_circuited_world :: "memory_storage world" where
  \<comment> \<open>\<^verbatim>\<open>stored_world\<close> as \<^verbatim>\<open>process_view\<close> leaves it when it has answered a request with
      \<^verbatim>\<open>the_key\<close> from the storage and the conflict status is the default: the response
      that the mapping holds is the object whose status was assigned\<close>
  "short_circuited_world =
     \<lparr>storage = [the_key \<mapsto> created\<lparr>status_code := 409\<rparr>],
      calls = [EncodeKey the_key, RetrieveData the_key]\<rparr>"

fun is_rejection :: "call \<Rightarrow> bool" where
  \<comment> \<open>the calls that \<^verbatim>\<open>_reject\<close> leaves in the log\<close>
  "is_rejection (LoggerError reason p) = True"
| "is_rejection c = False"

section \<open>Properties\<close>

text \<open>
  Claim C6: when \<^verbatim>\<open>process_view\<close> was never invoked for a request, so that the attribute
  \<^verbatim>\<open>idempotency_key_done\<close> is absent or false when the response comes back,
  \<^verbatim>\<open>process_response\<close> raises \<^verbatim>\<open>ImproperlyConfigured\<close> and returns no response,
  whatever the request, the response and the storage are.
\<close>

theorem process_response_not_done:
  assumes "idempotency_key_done request = None \<or> idempotency_key_done request = Some False"
  shows "process_response mw request response w = Inl ImproperlyConfigured"
  using assms by (auto simp: process_response_def get_flag_def)

theorem process_response_not_done_witness:
  "idempotency_key_done (new_request ''POST'' ''/create-voucher/'' Map.empty) = None
   \<and> process_response (memory_middleware IdempotencyKeyMiddleware (\<lambda>request key. key))
         (new_request ''POST'' ''/create-voucher/'' Map.empty) created empty_world
       = Inl ImproperlyConfigured
   \<and> idempotency_key_done (process_request (new_request ''POST'' ''/create-voucher/'' Map.empty))
       = Some False
   \<and> process_response (memory_middleware IdempotencyKeyMiddleware (\<lambda>request key. key))
         (process_request (new_request ''POST'' ''/create-voucher/'' Map.empty)) created
         empty_world
       = Inl ImproperlyConfigured"
proof -
  have a: "idempotency_key_done (new_request ''POST'' ''/create-voucher/'' Map.empty) = None"
    by (simp add: new_request_def)
  have b: "idempotency_key_done
      (process_request (new_request ''POST'' ''/create-voucher/'' Map.empty)) = Some False"
    by (simp add: new_request_def process_request_def)
  from a b show ?thesis
    by (simp add: process_response_not_done [OF disjI1 [OF a]]
          process_response_not_done [OF disjI2 [OF b]])
qed

section \<open>The phases of \<^verbatim>\<open>process_view\<close>\<close>

lemma process_view_flags_error:
  "exemption_phase (cls mw) request callback = Inl e \<Longrightarrow>
   process_view mw s request callback w = Inl e"
  by (auto simp: process_view_def exemption_phase_def Let_def split: sum.splits)

lemma process_view_exempt:
  "exemption_phase (cls mw) request callback = Inr rq \<Longrightarrow>
   idempotency_key_exempt rq = Some True \<Longrightarrow>
   process_view mw s request callback w = Inr (None, rq, w)"
  by (auto simp: process_view_def exemption_phase_def Let_def split: sum.splits)

lemma process_view_no_key:
  "exemption_phase (cls mw) request callback = Inr rq \<Longrightarrow>
   idempotency_key_exempt rq = Some False \<Longrightarrow>
   META rq ''IDEMPOTENCY_KEY'' = None \<Longrightarrow>
   process_view mw s request callback w =
     Inr (Some bad_request, rq,
          w\<lparr>calls := calls w @ [LoggerError missing_key_reason (path rq)]\<rparr>)"
  by (auto simp: process_view_def exemption_phase_def Let_def reject_def split: sum.splits)

lemma exemption_phase_exempt_cases:
  "exemption_phase c request callback = Inr rq \<Longrightarrow>
   idempotency_key_exempt rq = Some True \<or> idempotency_key_exempt rq = Some False"
  by (auto simp: exemption_phase_def Let_def split: sum.splits)

lemma process_view_keyed:
  "exemption_phase (cls mw) request callback = Inr rq \<Longrightarrow>
   idempotency_key_exempt rq = Some False \<Longrightarrow>
   META rq ''IDEMPOTENCY_KEY'' = Some key \<Longrightarrow>
   process_view mw s request callback w =
     (let manual = get_flag (idempotency_key_manual rq) False;
          rq1 = (if manual then rq\<lparr>use_idempotency_key_manual_override := Some True\<rparr> else rq);
          k = encode_key mw rq1 key;
          found = retrieve_data mw (storage w) k;
          rq2 = rq1\<lparr>idempotency_key_encoded_key := Some k,
                    idempotency_key_exists := Some (fst found),
                    idempotency_key_response := Some (snd found)\<rparr>;
          w2 = w\<lparr>calls := calls w @ [EncodeKey key, RetrieveData k]\<rparr>
      in if \<not> manual \<and> fst found then conflict_response mw s rq2 k (snd found) w2
         else Inr (None, rq2, w2))"
  by (auto simp: process_view_def exemption_phase_def Let_def split: sum.splits prod.splits)

lemma exemption_phase_facts:
  "exemption_phase c request callback = Inr rq \<Longrightarrow>
     idempotency_key_done rq = Some True
     \<and> META rq = META request \<and> request_method rq = request_method request
     \<and> path rq = path request
     \<and> (\<exists>m. idempotency_key_manual rq = Some m)
     \<and> (idempotency_key_exempt rq = Some False \<longrightarrow> request_method rq \<notin> set safe_methods)"
  by (cases c)
     (auto simp: exemption_phase_def set_flags_from_callback_def set_flags_deny_by_default_def
        set_flags_allow_by_default_def Let_def split: sum.splits)

section \<open>The requests of the tests, evaluated\<close>

lemmas fixture_defs = keyed_post_def new_request_def process_request_def the_key_def
  plain_middleware_def memory_middleware_def stored_world_def created_def no_attrs_def
  empty_world_def MemoryKeyStorage_retrieve_data_def MemoryKeyStorage_store_data_def
  MemoryKeyStorage_status_code_assigned_def short_circuited_world_def
  im_used_def im_used_view_def copying_middleware_def
  unkeyed_post_def manual_attrs_def manual_view_def first_post_def options_request_def
  voucher_viewset_def exempt_and_manual_attrs_def conflict_settings_def created_view_def

lemmas phase_defs = exemption_phase_def set_flags_from_callback_def
  set_flags_deny_by_default_def set_flags_allow_by_default_def viewset_member_def
  get_flag_def truthy_def safe_methods_def Let_def

lemma keyed_post_phase:
  "exemption_phase IdempotencyKeyMiddleware (keyed_post p) (View no_attrs) =
     Inr ((keyed_post p)\<lparr>idempotency_key_done := Some True,
            idempotency_key_exempt := Some False, idempotency_key_manual := Some False\<rparr>)"
  by (simp add: phase_defs fixture_defs)

lemma unkeyed_post_phase:
  "exemption_phase IdempotencyKeyMiddleware (unkeyed_post p) (View no_attrs) =
     Inr ((unkeyed_post p)\<lparr>idempotency_key_done := Some True,
            idempotency_key_exempt := Some False, idempotency_key_manual := Some False\<rparr>)"
  by (simp add: phase_defs fixture_defs)

lemma manual_post_phase:
  "exemption_phase IdempotencyKeyMiddleware (keyed_post p) (View manual_attrs) =
     Inr ((keyed_post p)\<lparr>idempotency_key_done := Some True,
            idempotency_key_exempt := Some False, idempotency_key_manual := Some True\<rparr>)"
  by (simp add: phase_defs fixture_defs)

lemma cls_plain [simp]: "cls (plain_middleware c) = c"
  by (simp add: plain_middleware_def memory_middleware_def)

lemma keyed_post_eval:
  "process_view (plain_middleware IdempotencyKeyMiddleware) None
      (keyed_post ''/create-voucher/'') (View no_attrs) stored_world
    = Inr (Some (created\<lparr>status_code := 409\<rparr>),
           (keyed_post ''/create-voucher/'')
             \<lparr>idempotency_key_done := Some True, idempotency_key_exempt := Some False,
              idempotency_key_manual := Some False,
              idempotency_key_encoded_key := Some the_key,
              idempotency_key_exists := Some True,
              idempotency_key_response := Some (Some (created\<lparr>status_code := 409\<rparr>))\<rparr>,
           short_circuited_world)"
  by (simp add: process_view_def phase_defs fixture_defs conflict_response_def
        get_conflict_code_def idkey_settings_of_def no_idkey_settings_def HTTP_409_CONFLICT_def)

section \<open>C1\<close>



section \<open>C3\<close>

text \<open>
  Claim C3: a request that is not exempt and has no \<^verbatim>\<open>IDEMPOTENCY_KEY\<close> entry is answered
  by \<^verbatim>\<open>process_view\<close> with the 400 response of \<^verbatim>\<open>_reject\<close>; the only call made is the
  one to the logger, so the encoder, the storage and the view are not called.  In every
  other case in which \<^verbatim>\<open>process_view\<close> returns, no rejection has been logged: the missing
  key is the only validation failure.
\<close>

theorem process_view_rejects_missing_key:
  assumes "exemption_phase (cls mw) request callback = Inr rq"
  shows
    "(idempotency_key_exempt rq = Some False \<and> META rq ''IDEMPOTENCY_KEY'' = None \<longrightarrow>
        (let w' = w\<lparr>calls := calls w @ [LoggerError missing_key_reason (path rq)]\<rparr>
         in process_view mw s request callback w = Inr (Some bad_request, rq, w')
            \<and> get_response mw s callback view request w = Inr (bad_request, rq, w')
            \<and> status_code bad_request = 400))
     \<and> (\<not> (idempotency_key_exempt rq = Some False \<and> META rq ''IDEMPOTENCY_KEY'' = None) \<longrightarrow>
        (\<forall>result rq' w'. process_view mw s request callback w = Inr (result, rq', w') \<longrightarrow>
           filter is_rejection (calls w') = filter is_rejection (calls w)))"
proof (intro conjI impI allI)
  assume a: "idempotency_key_exempt rq = Some False \<and> META rq ''IDEMPOTENCY_KEY'' = None"
  then show "let w' = w\<lparr>calls := calls w @ [LoggerError missing_key_reason (path rq)]\<rparr>
         in process_view mw s request callback w = Inr (Some bad_request, rq, w')
            \<and> get_response mw s callback view request w = Inr (bad_request, rq, w')
            \<and> status_code bad_request = 400"
    using assms by (simp add: process_view_no_key get_response_def Let_def bad_request_def)
next
  fix result rq' w'
  assume n: "\<not> (idempotency_key_exempt rq = Some False \<and> META rq ''IDEMPOTENCY_KEY'' = None)"
    and pv: "process_view mw s request callback w = Inr (result, rq', w')"
  from exemption_phase_exempt_cases [OF assms]
  show "filter is_rejection (calls w') = filter is_rejection (calls w)"
  proof
    assume "idempotency_key_exempt rq = Some True"
    with assms pv show ?thesis by (simp add: process_view_exempt)
  next
    assume e: "idempotency_key_exempt rq = Some False"
    with n obtain key where k: "META rq ''IDEMPOTENCY_KEY'' = Some key" by auto
    from pv show ?thesis
      unfolding process_view_keyed [OF assms e k]
      by (auto simp: Let_def conflict_response_def split: if_splits option.splits)
  qed
qed

theorem process_view_rejects_missing_key_witness:
  "process_view (plain_middleware IdempotencyKeyMiddleware) None
      (unkeyed_post ''/create-voucher/'') (View no_attrs) stored_world
    = Inr (Some bad_request,
           (unkeyed_post ''/create-voucher/'')
             \<lparr>idempotency_key_done := Some True, idempotency_key_exempt := Some False,
              idempotency_key_manual := Some False\<rparr>,
           stored_world\<lparr>calls := [LoggerError missing_key_reason ''/create-voucher/'']\<rparr>)
   \<and> status_code bad_request = 400
   \<and> filter is_rejection [EncodeKey the_key, RetrieveData the_key] = []"
proof -
  let ?mw = "plain_middleware IdempotencyKeyMiddleware"
  let ?rq = "(unkeyed_post ''/create-voucher/'')\<lparr>idempotency_key_done := Some True,
            idempotency_key_exempt := Some False, idempotency_key_manual := Some False\<rparr>"
  let ?rk = "(keyed_post ''/create-voucher/'')\<lparr>idempotency_key_done := Some True,
            idempotency_key_exempt := Some False, idempotency_key_manual := Some False\<rparr>"
  have h1: "exemption_phase (cls ?mw) (unkeyed_post ''/create-voucher/'') (View no_attrs) = Inr ?rq"
    by (simp add: unkeyed_post_phase)
  have a: "idempotency_key_exempt ?rq = Some False \<and> META ?rq ''IDEMPOTENCY_KEY'' = None"
    by (simp add: fixture_defs)
  have p: "path ?rq = ''/create-voucher/''" by (simp add: fixture_defs)
  have k1: "exemption_phase (cls ?mw) (keyed_post ''/create-voucher/'') (View no_attrs) = Inr ?rk"
    by (simp add: keyed_post_phase)
  have b: "\<not> (idempotency_key_exempt ?rk = Some False \<and> META ?rk ''IDEMPOTENCY_KEY'' = None)"
    by (simp add: fixture_defs)
  have c: "calls stored_world = []" by (simp add: stored_world_def)
  from process_view_rejects_missing_key [OF h1, where s = None and w = stored_world] a p c
  have r1: "process_view ?mw None (unkeyed_post ''/create-voucher/'') (View no_attrs) stored_world
      = Inr (Some bad_request, ?rq,
          stored_world\<lparr>calls := [LoggerError missing_key_reason ''/create-voucher/'']\<rparr>)
     \<and> status_code bad_request = 400"
    by (simp add: Let_def)
  from process_view_rejects_missing_key [OF k1, where s = None and w = stored_world] b keyed_post_eval c
  have r2: "filter is_rejection [EncodeKey the_key, RetrieveData the_key] = []"
    by (simp add: stored_world_def)
  from r1 r2 show ?thesis by blast
qed

section \<open>C5\<close>

text \<open>
  Claim C5: on a view with the manual override, a request that is not exempt and carries a
  key is never answered by \<^verbatim>\<open>process_view\<close>, whatever the storage holds: it returns
  \<^verbatim>\<open>None\<close>, the view is called, and the request carries the flag
  \<^verbatim>\<open>idempotency_key_exists\<close> and the response that the storage returned.
\<close>

theorem process_view_manual_override:
  assumes "exemption_phase (cls mw) request callback = Inr rq"
    and "idempotency_key_exempt rq = Some False"
    and "idempotency_key_manual rq = Some True"
    and "META rq ''IDEMPOTENCY_KEY'' = Some key"
  shows
    "(let rq1 = rq\<lparr>use_idempotency_key_manual_override := Some True\<rparr>;
          k = encode_key mw rq1 key;
          found = retrieve_data mw (storage w) k;
          rq' = rq1\<lparr>idempotency_key_encoded_key := Some k,
                    idempotency_key_exists := Some (fst found),
                    idempotency_key_response := Some (snd found)\<rparr>;
          w' = w\<lparr>calls := calls w @ [EncodeKey key, RetrieveData k]\<rparr>
      in process_view mw s request callback w = Inr (None, rq', w')
         \<and> get_response mw s callback view request w =
             Inr (view rq', rq', w'\<lparr>calls := calls w' @ [ViewCalled]\<rparr>))"
  using assms
  by (simp add: process_view_keyed get_response_def get_flag_def Let_def)

theorem process_view_manual_override_witness:
  "process_view (plain_middleware IdempotencyKeyMiddleware) None
      (keyed_post ''/create-voucher-manual/'') (View manual_attrs) stored_world
    = Inr (None,
           (keyed_post ''/create-voucher-manual/'')
             \<lparr>idempotency_key_done := Some True, idempotency_key_exempt := Some False,
              idempotency_key_manual := Some True,
              use_idempotency_key_manual_override := Some True,
              idempotency_key_encoded_key := Some the_key,
              idempotency_key_exists := Some True,
              idempotency_key_response := Some (Some created)\<rparr>,
           stored_world\<lparr>calls := [EncodeKey the_key, RetrieveData the_key]\<rparr>)
   \<and> (\<exists>rq. get_response (plain_middleware IdempotencyKeyMiddleware) None
         (View manual_attrs) manual_view (keyed_post ''/create-voucher-manual/'') stored_world
       = Inr (created\<lparr>status_code := 200\<rparr>, rq,
          stored_world\<lparr>calls := [EncodeKey the_key, RetrieveData the_key, ViewCalled]\<rparr>))"
proof -
  let ?mw = "plain_middleware IdempotencyKeyMiddleware"
  let ?rq = "(keyed_post ''/create-voucher-manual/'')\<lparr>idempotency_key_done := Some True,
            idempotency_key_exempt := Some False, idempotency_key_manual := Some True\<rparr>"
  have h1: "exemption_phase (cls ?mw) (keyed_post ''/create-voucher-manual/'') (View manual_attrs)
      = Inr ?rq"
    by (simp add: manual_post_phase)
  have h2: "idempotency_key_exempt ?rq = Some False" by simp
  have h3: "idempotency_key_manual ?rq = Some True" by simp
  have h4: "META ?rq ''IDEMPOTENCY_KEY'' = Some the_key" by (simp add: fixture_defs)
  have e: "encode_key ?mw = (\<lambda>request key. key)"
    and r: "retrieve_data ?mw (storage stored_world) the_key = (True, Some created)"
    and c: "calls stored_world = []"
    by (simp_all add: fixture_defs)
  from process_view_manual_override [OF h1 h2 h3 h4, where s = None and w = stored_world and view = manual_view] e r c
  show ?thesis
    by (simp add: Let_def manual_view_def)
qed

section \<open>C10\<close>

text \<open>
  Claim C10: whenever \<^verbatim>\<open>process_view\<close> returns, for any request, callback and storage,
  the request carries boolean \<^verbatim>\<open>idempotency_key_exempt\<close> and \<^verbatim>\<open>idempotency_key_manual\<close>
  attributes and \<^verbatim>\<open>idempotency_key_done\<close> is \<^verbatim>\<open>True\<close>; when the request is not exempt
  and carried a key, it also carries \<^verbatim>\<open>idempotency_key_encoded_key\<close>,
  \<^verbatim>\<open>idempotency_key_exists\<close> and \<^verbatim>\<open>idempotency_key_response\<close>.
\<close>

theorem process_view_sets_attributes:
  assumes "process_view mw s request callback w = Inr (result, rq', w')"
  shows
    "(\<exists>e m. idempotency_key_exempt rq' = Some e \<and> idempotency_key_manual rq' = Some m)
     \<and> idempotency_key_done rq' = Some True
     \<and> (idempotency_key_exempt rq' = Some False \<and> META request ''IDEMPOTENCY_KEY'' \<noteq> None \<longrightarrow>
          (\<exists>k x p. idempotency_key_encoded_key rq' = Some k
             \<and> idempotency_key_exists rq' = Some x
             \<and> idempotency_key_response rq' = Some p))"
proof -
  from assms obtain rq where ph: "exemption_phase (cls mw) request callback = Inr rq"
    by (cases "exemption_phase (cls mw) request callback") (auto simp: process_view_flags_error)
  note f = exemption_phase_facts [OF ph]
  from exemption_phase_exempt_cases [OF ph] show ?thesis
  proof
    assume "idempotency_key_exempt rq = Some True"
    with assms ph f show ?thesis by (auto simp: process_view_exempt)
  next
    assume e: "idempotency_key_exempt rq = Some False"
    show ?thesis
    proof (cases "META rq ''IDEMPOTENCY_KEY''")
      case None
      with assms ph e f show ?thesis by (auto simp: process_view_no_key)
    next
      case (Some key)
      from assms f e show ?thesis
        unfolding process_view_keyed [OF ph e Some]
        by (auto simp: Let_def conflict_response_def split: if_splits option.splits)
    qed
  qed
qed

theorem process_view_sets_attributes_witness:
  "process_view (plain_middleware IdempotencyKeyMiddleware) None
      (keyed_post ''/create-voucher/'') (View no_attrs) stored_world
    = Inr (Some (created\<lparr>status_code := 409\<rparr>), short_circuited_post ''/create-voucher/'',
           short_circuited_world)
   \<and> META (keyed_post ''/create-voucher/'') ''IDEMPOTENCY_KEY'' \<noteq> None
   \<and> idempotency_key_exempt (short_circuited_post ''/create-voucher/'') = Some False
   \<and> (\<exists>m. idempotency_key_manual (short_circuited_post ''/create-voucher/'') = Some m)
   \<and> idempotency_key_done (short_circuited_post ''/create-voucher/'') = Some True
   \<and> (\<exists>k x p. idempotency_key_encoded_key (short_circuited_post ''/create-voucher/'') = Some k
         \<and> idempotency_key_exists (short_circuited_post ''/create-voucher/'') = Some x
         \<and> idempotency_key_response (short_circuited_post ''/create-voucher/'') = Some p)"
proof -
  have pv: "process_view (plain_middleware IdempotencyKeyMiddleware) None
      (keyed_post ''/create-voucher/'') (View no_attrs) stored_world
    = Inr (Some (created\<lparr>status_code := 409\<rparr>), short_circuited_post ''/create-voucher/'',
           short_circuited_world)"
    by (simp add: keyed_post_eval short_circuited_post_def)
  have m: "META (keyed_post ''/create-voucher/'') ''IDEMPOTENCY_KEY'' \<noteq> None"
    by (simp add: fixture_defs)
  have x: "idempotency_key_exempt (short_circuited_post ''/create-voucher/'') = Some False"
    by (simp add: short_circuited_post_def)
  from process_view_sets_attributes [OF pv] m x pv show ?thesis
    by simp
qed

section \<open>C2\<close>

lemma process_view_proceeds:
  assumes "process_view mw s request callback w0 = Inr (None, rq, w)"
  shows "idempotency_key_done rq = Some True
     \<and> (idempotency_key_exempt rq = Some True \<or> idempotency_key_exempt rq = Some False)
     \<and> (idempotency_key_exempt rq = Some False \<longrightarrow>
          request_method rq \<notin> set safe_methods \<and> (\<exists>k. idempotency_key_encoded_key rq = Some k))"
proof -
  from assms obtain rq0 where ph: "exemption_phase (cls mw) request callback = Inr rq0"
    by (cases "exemption_phase (cls mw) request callback") (auto simp: process_view_flags_error)
  note f = exemption_phase_facts [OF ph]
  from exemption_phase_exempt_cases [OF ph] show ?thesis
  proof
    assume "idempotency_key_exempt rq0 = Some True"
    with assms ph f show ?thesis by (auto simp: process_view_exempt)
  next
    assume e: "idempotency_key_exempt rq0 = Some False"
    show ?thesis
    proof (cases "META rq0 ''IDEMPOTENCY_KEY''")
      case None
      with assms ph e show ?thesis by (simp add: process_view_no_key)
    next
      case (Some key)
      from assms f e show ?thesis
        unfolding process_view_keyed [OF ph e Some]
        by (auto simp: Let_def conflict_response_def split: if_splits option.splits)
    qed
  qed
qed

text \<open>
  What \<^verbatim>\<open>process_response\<close> does when \<^verbatim>\<open>process_view\<close> has run and let the request
  through to the view: it returns the view's response, and it has written that response
  to the storage under the encoded key exactly when the request is not exempt, its verb
  is not one of GET, HEAD, OPTIONS, TRACE, and the status code lies between
  \<^verbatim>\<open>HTTP_200_OK\<close> and \<^verbatim>\<open>HTTP_207_MULTI_STATUS\<close>.  In every other case the storage and
  the log are what they were.
\<close>

lemma process_response_stores_iff:
  assumes "process_view mw s request callback w0 = Inr (None, rq, w)"
  shows "\<exists>k. (idempotency_key_exempt rq = Some False \<longrightarrow> idempotency_key_encoded_key rq = Some k)
     \<and> process_response mw rq response w =
         Inr (response,
              if idempotency_key_exempt rq = Some False
                 \<and> request_method rq \<notin> set safe_methods
                 \<and> 200 \<le> status_code response \<and> status_code response \<le> 207
              then w\<lparr>storage := store_data mw (storage w) k response,
                     calls := calls w @ [StoreData k response]\<rparr>
              else w)"
  using process_view_proceeds [OF assms]
  by (auto simp: process_response_def get_flag_def HTTP_200_OK_def HTTP_207_MULTI_STATUS_def)

lemma first_post_eval:
  "process_view (plain_middleware IdempotencyKeyMiddleware) None
      (keyed_post ''/create-voucher/'') (View no_attrs) empty_world
    = Inr (None, first_post ''/create-voucher/'',
           empty_world\<lparr>calls := [EncodeKey the_key, RetrieveData the_key]\<rparr>)"
  by (simp add: process_view_def phase_defs fixture_defs)

lemma first_post_response_stored:
  "process_view (plain_middleware IdempotencyKeyMiddleware) None
      (keyed_post ''/create-voucher/'') (View no_attrs) empty_world
    = Inr (None, first_post ''/create-voucher/'',
           empty_world\<lparr>calls := [EncodeKey the_key, RetrieveData the_key]\<rparr>)
   \<and> process_response (plain_middleware IdempotencyKeyMiddleware)
        (first_post ''/create-voucher/'') created
        (empty_world\<lparr>calls := [EncodeKey the_key, RetrieveData the_key]\<rparr>)
      = Inr (created,
          \<lparr>storage = [the_key \<mapsto> created],
           calls = [EncodeKey the_key, RetrieveData the_key, StoreData the_key created]\<rparr>)
   \<and> process_response (plain_middleware IdempotencyKeyMiddleware)
        (first_post ''/create-voucher/'') bad_request
        (empty_world\<lparr>calls := [EncodeKey the_key, RetrieveData the_key]\<rparr>)
      = Inr (bad_request, empty_world\<lparr>calls := [EncodeKey the_key, RetrieveData the_key]\<rparr>)"
proof -
  let ?mw = "plain_middleware IdempotencyKeyMiddleware"
  let ?rq = "first_post ''/create-voucher/''"
  have e: "idempotency_key_exempt ?rq = Some False"
    and k: "idempotency_key_encoded_key ?rq = Some the_key"
    and m: "request_method ?rq \<notin> set safe_methods"
    by (simp_all add: fixture_defs safe_methods_def)
  have c: "status_code created = 201" and b: "status_code bad_request = 400"
    by (simp_all add: created_def bad_request_def)
  have st: "store_data ?mw (storage empty_world) the_key created = [the_key \<mapsto> created]"
    by (simp add: fixture_defs)
  from process_response_stores_iff [OF first_post_eval, where response = created] e k m c st
  have r1: "process_response ?mw ?rq created
        (empty_world\<lparr>calls := [EncodeKey the_key, RetrieveData the_key]\<rparr>)
      = Inr (created,
          \<lparr>storage = [the_key \<mapsto> created],
           calls = [EncodeKey the_key, RetrieveData the_key, StoreData the_key created]\<rparr>)"
    by (auto simp: empty_world_def)
  from process_response_stores_iff [OF first_post_eval, where response = bad_request] e k m b
  have r2: "process_response ?mw ?rq bad_request
        (empty_world\<lparr>calls := [EncodeKey the_key, RetrieveData the_key]\<rparr>)
      = Inr (bad_request, empty_world\<lparr>calls := [EncodeKey the_key, RetrieveData the_key]\<rparr>)"
    by auto
  from first_post_eval r1 r2 show ?thesis by simp
qed

text \<open>
  Claim C2: the response of the view is written to the storage under the encoded key if
  and only if the request is not exempt, its verb is not a safe one, and the status code
  of the response is in the successful class 2xx.  The comment of line 129 says the same
  (\<^verbatim>\<open>If the response is 2XX then store the response\<close>), but the test of line 130 ends at
  \<^verbatim>\<open>HTTP_207_MULTI_STATUS\<close>: the statuses 208 and 226 are in the class and are not
  stored.  Here a first POST with a key is answered with 226 by its view: the response
  comes back, \<^verbatim>\<open>store_data\<close> is not called, and the storage is as empty as it was, so a
  second request with the same key will not find a recorded result.
\<close>

theorem im_used_response_not_stored:
  "call_middleware (plain_middleware IdempotencyKeyMiddleware) None (View no_attrs)
      im_used_view
      (new_request ''POST'' ''/create-voucher/'' [''HTTP_IDEMPOTENCY_KEY'' \<mapsto> the_key])
      empty_world
    = Inr (im_used, first_post ''/create-voucher/'',
           \<lparr>storage = Map.empty,
            calls = [EncodeKey the_key, RetrieveData the_key, ViewCalled]\<rparr>)
   \<and> idempotency_key_exempt (first_post ''/create-voucher/'') = Some False
   \<and> request_method (first_post ''/create-voucher/'') = ''POST''
   \<and> 200 \<le> status_code im_used \<and> status_code im_used \<le> 299"
  by (simp add: call_middleware_def get_response_def process_view_def process_response_def
        phase_defs fixture_defs HTTP_200_OK_def HTTP_207_MULTI_STATUS_def)

section \<open>C4\<close>

text \<open>
  When the attributes of the callback can be read, a request with a safe verb is marked
  exempt whatever those attributes are, needs no key, and neither \<^verbatim>\<open>process_view\<close> nor
  \<^verbatim>\<open>process_response\<close> touches the storage or calls a collaborator.
\<close>

lemma safe_method_exempt:
  assumes "viewset_member request callback = Inr attrs"
    and "request_method request \<in> set safe_methods"
  shows "\<exists>rq. process_view mw s request callback w = Inr (None, rq, w)
     \<and> idempotency_key_exempt rq = Some True
     \<and> process_response mw rq response w = Inr (response, w)"
  using assms
  by (cases "cls mw")
     (auto simp: process_view_def set_flags_from_callback_def set_flags_deny_by_default_def
        set_flags_allow_by_default_def process_response_def get_flag_def Let_def)

text \<open>
  With a safe verb \<^verbatim>\<open>process_view\<close> either raises or returns \<^verbatim>\<open>None\<close> with the world
  untouched: the storage is never consulted.
\<close>

lemma storage_never_consulted_on_safe_method:
  assumes "request_method request \<in> set safe_methods"
  shows "(\<exists>e. process_view mw s request callback w = Inl e)
     \<or> (\<exists>rq. process_view mw s request callback w = Inr (None, rq, w))"
  using assms
  by (cases "cls mw")
     (auto simp: process_view_def set_flags_from_callback_def set_flags_deny_by_default_def
        set_flags_allow_by_default_def get_flag_def Let_def split: sum.splits)

text \<open>
  Claim C4: every request whose verb is GET, HEAD, OPTIONS or TRACE is marked exempt in
  \<^verbatim>\<open>process_view\<close>.  The code does not do so for every such request: for the view of a
  viewset, \<^verbatim>\<open>callback.actions[request.method.lower()]\<close> is evaluated before the verb is
  looked at and raises \<^verbatim>\<open>KeyError\<close> when the viewset has no action for the verb.  An
  OPTIONS request to a viewset registered for \<^verbatim>\<open>post\<close> only is not marked exempt:
  \<^verbatim>\<open>process_view\<close> raises.
\<close>

theorem options_on_viewset_raises:
  "process_view (plain_middleware IdempotencyKeyMiddleware) None
      (options_request ''/vouchers/'') voucher_viewset empty_world = Inl (KeyError ''options'')
   \<and> request_method (options_request ''/vouchers/'') \<in> set safe_methods
   \<and> call_middleware (plain_middleware IdempotencyKeyMiddleware) None voucher_viewset
        created_view (new_request ''OPTIONS'' ''/vouchers/'' Map.empty) empty_world
      = Inl (KeyError ''options'')"
  by (simp add: process_view_def call_middleware_def get_response_def phase_defs fixture_defs
        lower_def lower_char_def)

section \<open>C9\<close>

text \<open>
  Claim C9 (as stated, refuted here): in the allow-by-default middleware every route that
  opts in, through the \<^verbatim>\<open>idempotency_key\<close> attribute or the manual-override flag, is
  resolved as non-exempt.  A view that carries both of them and also
  \<^verbatim>\<open>idempotency_key_exempt = True\<close> is resolved as exempt.
\<close>

theorem exempt_flag_wins:
  "truthy (attr_idempotency_key exempt_and_manual_attrs)
   \<and> get_flag (attr_idempotency_key_manual exempt_and_manual_attrs) False
   \<and> set_flags_from_callback ExemptIdempotencyKeyMiddleware
        (keyed_post ''/create-voucher-exempt-test-1/'') (View exempt_and_manual_attrs)
      = Inr ((keyed_post ''/create-voucher-exempt-test-1/'')
              \<lparr>idempotency_key_exempt := Some True, idempotency_key_manual := Some True\<rparr>)"
  by (simp add: phase_defs fixture_defs)

text \<open>
  Claim C9 (amended): in the allow-by-default middleware a route with an explicit
  \<^verbatim>\<open>idempotency_key_exempt\<close> attribute is resolved by that attribute (exempt for
  \<^verbatim>\<open>True\<close>, non-exempt for \<^verbatim>\<open>False\<close>); a route without it is resolved as exempt
  unless it has a true \<^verbatim>\<open>idempotency_key\<close> attribute or the manual-override flag, in which
  case it is resolved as non-exempt.  The manual flag is copied to the request.
\<close>

theorem allow_by_default_resolution:
  assumes "viewset_member request callback = Inr attrs"
  shows "set_flags_from_callback ExemptIdempotencyKeyMiddleware request callback =
     Inr (request
       \<lparr>idempotency_key_exempt :=
          Some (case attr_idempotency_key_exempt attrs of
                  Some e \<Rightarrow> e
                | None \<Rightarrow> \<not> get_flag (attr_idempotency_key_manual attrs) False
                          \<and> \<not> truthy (attr_idempotency_key attrs)),
        idempotency_key_manual := Some (get_flag (attr_idempotency_key_manual attrs) False)\<rparr>)"
  using assms
  by (auto simp: set_flags_from_callback_def set_flags_allow_by_default_def Let_def truthy_def
      split: option.splits)

theorem allow_by_default_resolution_witness:
  "set_flags_from_callback ExemptIdempotencyKeyMiddleware
      (keyed_post ''/create-voucher-no-decorators/'') (View no_attrs)
    = Inr ((keyed_post ''/create-voucher-no-decorators/'')
            \<lparr>idempotency_key_exempt := Some True, idempotency_key_manual := Some False\<rparr>)
   \<and> set_flags_from_callback ExemptIdempotencyKeyMiddleware
      (keyed_post ''/create-voucher-manual/'') (View manual_attrs)
    = Inr ((keyed_post ''/create-voucher-manual/'')
            \<lparr>idempotency_key_exempt := Some False, idempotency_key_manual := Some True\<rparr>)"
proof -
  have a: "viewset_member (keyed_post ''/create-voucher-no-decorators/'') (View no_attrs)
      = Inr no_attrs"
    and b: "viewset_member (keyed_post ''/create-voucher-manual/'') (View manual_attrs)
      = Inr manual_attrs"
    by (simp_all add: viewset_member_def)
  from allow_by_default_resolution [OF a] allow_by_default_resolution [OF b]
  show ?thesis
    by (simp add: no_attrs_def manual_attrs_def truthy_def get_flag_def)
qed

section \<open>C7\<close>

text \<open>
  The whole cycle \<^verbatim>\<open>__call__\<close> for a non-manual request whose encoded key is already
  stored with the response \<open>r\<close>.  \<^verbatim>\<open>process_view\<close> short-circuits; when a conflict
  status is configured it is assigned to the retrieved object, which the storage sees as
  far as it holds that object.  \<^verbatim>\<open>process_response\<close> then treats the short-circuit
  response like a response of the view: it stores it under the encoded key when its
  status is between 200 and 207.
\<close>

lemma duplicate_request_cycle:
  assumes "exemption_phase (cls mw) (process_request request) callback = Inr rq"
    and "idempotency_key_exempt rq = Some False"
    and "idempotency_key_manual rq = Some False"
    and "META rq ''IDEMPOTENCY_KEY'' = Some key"
    and "retrieve_data mw (storage w) (encode_key mw rq key) = (True, Some r)"
  shows "\<exists>rq'. call_middleware mw s callback view request w =
     (let k = encode_key mw rq key;
          r' = (case get_conflict_code s of None \<Rightarrow> r | Some c \<Rightarrow> r\<lparr>status_code := c\<rparr>);
          st = (case get_conflict_code s of
                  None \<Rightarrow> storage w
                | Some c \<Rightarrow> status_code_assigned mw (storage w) k c);
          w2 = w\<lparr>storage := st, calls := calls w @ [EncodeKey key, RetrieveData k]\<rparr>
      in Inr (r', rq',
           if 200 \<le> status_code r' \<and> status_code r' \<le> 207
           then w2\<lparr>storage := store_data mw st k r',
                   calls := calls w2 @ [StoreData k r']\<rparr>
           else w2))"
  using assms exemption_phase_facts [OF assms(1)]
  by (auto simp: call_middleware_def get_response_def process_view_keyed get_flag_def Let_def
        conflict_response_def process_response_def HTTP_200_OK_def HTTP_207_MULTI_STATUS_def
      split: option.splits)

text \<open>
  Claim C7: once a result is stored for an encoded key, the non-manual protocol never
  modifies or overwrites it.  The code does.  In
  \<^verbatim>\<open>test_middleware_duplicate_request_use_different_status_code\<close> the setting
  \<^verbatim>\<open>CONFLICT_STATUS_CODE\<close> is 200, and the storage holds the 201 response of the first
  POST.  The second POST with the same key short-circuits with that response and the
  status 200; \<^verbatim>\<open>process_response\<close> finds a non-exempt POST with a status in
  \<^verbatim>\<open>HTTP_200_OK..HTTP_207_MULTI_STATUS\<close> and calls \<^verbatim>\<open>store_data\<close>: the storage now holds
  the response with the status 200 where it held the one with the status 201.
\<close>

theorem conflict_status_200_overwrites:
  "call_middleware (plain_middleware IdempotencyKeyMiddleware) (conflict_settings (Some 200))
      (View no_attrs) created_view
      (new_request ''POST'' ''/create-voucher/'' [''HTTP_IDEMPOTENCY_KEY'' \<mapsto> the_key])
      stored_world
    = Inr (created\<lparr>status_code := 200\<rparr>,
           (short_circuited_post ''/create-voucher/'')
             \<lparr>idempotency_key_response := Some (Some (created\<lparr>status_code := 200\<rparr>))\<rparr>,
           \<lparr>storage = [the_key \<mapsto> created\<lparr>status_code := 200\<rparr>],
            calls = [EncodeKey the_key, RetrieveData the_key,
                     StoreData the_key (created\<lparr>status_code := 200\<rparr>)]\<rparr>)
   \<and> storage stored_world the_key = Some created
   \<and> created\<lparr>status_code := 200\<rparr> \<noteq> created"
  by (simp add: call_middleware_def get_response_def process_view_def process_response_def
        phase_defs fixture_defs short_circuited_post_def conflict_response_def
        get_conflict_code_def idkey_settings_of_def no_idkey_settings_def
        HTTP_409_CONFLICT_def HTTP_200_OK_def HTTP_207_MULTI_STATUS_def)

text \<open>
  The same happens behind a backend that hands out copies: the overwrite is the
  \<^verbatim>\<open>store_data\<close> call of \<^verbatim>\<open>process_response\<close>.
\<close>

lemma copying_backend_conflict_status_200:
  "call_middleware
      (copying_middleware IdempotencyKeyMiddleware (\<lambda>request key. key))
      (conflict_settings (Some 200))
      (View no_attrs) created_view
      (new_request ''POST'' ''/create-voucher/'' [''HTTP_IDEMPOTENCY_KEY'' \<mapsto> the_key])
      stored_world
    = Inr (created\<lparr>status_code := 200\<rparr>,
           (short_circuited_post ''/create-voucher/'')
             \<lparr>idempotency_key_response := Some (Some (created\<lparr>status_code := 200\<rparr>))\<rparr>,
           \<lparr>storage = [the_key \<mapsto> created\<lparr>status_code := 200\<rparr>],
            calls = [EncodeKey the_key, RetrieveData the_key,
                     StoreData the_key (created\<lparr>status_code := 200\<rparr>)]\<rparr>)"
  by (simp add: call_middleware_def get_response_def process_view_def process_response_def
        phase_defs fixture_defs short_circuited_post_def conflict_response_def
        get_conflict_code_def idkey_settings_of_def no_idkey_settings_def
        HTTP_409_CONFLICT_def HTTP_200_OK_def HTTP_207_MULTI_STATUS_def)

text \<open>
  With the default conflict status 409 nothing is stored again, but the assignment of
  line 110 acts on the retrieved object: in the in-memory mapping the recorded result
  has the status 409 afterwards, behind a copying backend it is what it was.
\<close>

lemma default_conflict_status_changes_held_response:
  "call_middleware (plain_middleware IdempotencyKeyMiddleware) None (View no_attrs)
      created_view
      (new_request ''POST'' ''/create-voucher/'' [''HTTP_IDEMPOTENCY_KEY'' \<mapsto> the_key])
      stored_world
    = Inr (created\<lparr>status_code := 409\<rparr>, short_circuited_post ''/create-voucher/'',
           \<lparr>storage = [the_key \<mapsto> created\<lparr>status_code := 409\<rparr>],
            calls = [EncodeKey the_key, RetrieveData the_key]\<rparr>)"
  by (simp add: call_middleware_def get_response_def process_view_def process_response_def
        phase_defs fixture_defs short_circuited_post_def conflict_response_def
        get_conflict_code_def idkey_settings_of_def no_idkey_settings_def
        HTTP_409_CONFLICT_def HTTP_200_OK_def HTTP_207_MULTI_STATUS_def)

lemma default_conflict_status_copy_unchanged:
  "call_middleware
      (copying_middleware IdempotencyKeyMiddleware (\<lambda>request key. key)) None
      (View no_attrs) created_view
      (new_request ''POST'' ''/create-voucher/'' [''HTTP_IDEMPOTENCY_KEY'' \<mapsto> the_key])
      stored_world
    = Inr (created\<lparr>status_code := 409\<rparr>, short_circuited_post ''/create-voucher/'',
           \<lparr>storage = [the_key \<mapsto> created],
            calls = [EncodeKey the_key, RetrieveData the_key]\<rparr>)"
  by (simp add: call_middleware_def get_response_def process_view_def process_response_def
        phase_defs fixture_defs short_circuited_post_def conflict_response_def
        get_conflict_code_def idkey_settings_of_def no_idkey_settings_def
        HTTP_409_CONFLICT_def HTTP_200_OK_def HTTP_207_MULTI_STATUS_def)

section \<open>C8\<close>



















end
